theory Spec2Isabelle
  imports Complex_Main "HOL-Library.Product_Lexorder" "HOL-Library.Multiset"
begin

section \<open>Inkly: the session and reward core\<close>

text \<open>
  A shallow embedding of \<^verbatim>\<open>models.py\<close> and of the two variants of
  \<^verbatim>\<open>game_manager.py\<close> (\<^verbatim>\<open>templates_static/game_manager.py\<close>, whose
  \<^verbatim>\<open>start_session\<close> creates unknown players, and
  \<^verbatim>\<open>Inkly/templates_static/game_manager.py\<close>, whose \<^verbatim>\<open>start_session\<close> raises).

  Conventions of the model:
  \<^item> Python's unbounded \<^verbatim>\<open>int\<close> is \<^typ>\<open>int\<close>.
  \<^item> Python's \<^verbatim>\<open>float\<close> is idealised as \<^typ>\<open>rat\<close>: arithmetic is exact, the
    rounding of binary floating point is not modelled. Concrete inputs used below are dyadic
    rationals on which the floating-point computation is exact as well.
  \<^item> Strings are byte strings; a character outside ASCII is written as its UTF-8 bytes, as in
    the source file.
  \<^item> \<^verbatim>\<open>Player\<close> objects are shared between the \<^verbatim>\<open>players\<close> dictionary and the sessions,
    so they live in an explicit object store and are referred to by address.
  \<^item> Dictionaries are association lists in insertion order, as Python iterates them.
  \<^item> \<^verbatim>\<open>uuid.uuid4()\<close>, \<^verbatim>\<open>datetime.now()\<close>, \<^verbatim>\<open>random.random()\<close> and
    \<^verbatim>\<open>random.choice\<close> are inputs supplied by the environment.
\<close>

subsection \<open>models.py: enumerations and data classes\<close>

datatype Difficulty = EASY | MEDIUM | HARD

datatype BrushType = NORMAL | NEON | SPRAY | MARKER | SPARKLE

type_synonym datetime = nat

record Prompt =
  text_str :: string
  difficulty :: Difficulty
  time_limit :: int

record Player =
  id_str :: string
  name :: string
  level :: int
  xp :: int
  streak :: int
  total_drawings :: int
  correct_guesses :: int
  brushes_unlocked :: "BrushType list"
  achievements :: "string list"
  last_played :: "datetime option"

text \<open>The field \<open>player\<close> of a session is a reference: the address of the player object.\<close>

record DrawingSession =
  session_id :: string
  player :: nat
  prompt :: Prompt
  started_at :: datetime
  drawing_data :: "string option"
  ai_guesses :: "string list"
  correct :: bool
  time_spent :: rat
  score :: int

text \<open>
  \<^verbatim>\<open>Player.add_xp\<close>: returns the flag together with the updated player.
\<close>

definition add_xp :: "Player \<Rightarrow> int \<Rightarrow> bool \<times> Player" where
  "add_xp self points =
     (let self1 = self\<lparr>xp := xp self + points\<rparr>;
          xp_needed = level self1 * 100
      in if xp self1 \<ge> xp_needed
         then (True, self1\<lparr>level := level self1 + 1, xp := xp self1 - xp_needed\<rparr>)
         else (False, self1))"

definition unlock_brush :: "Player \<Rightarrow> BrushType \<Rightarrow> Player" where
  "unlock_brush self brush =
     (if brush \<notin> set (brushes_unlocked self)
      then self\<lparr>brushes_unlocked := brushes_unlocked self @ [brush]\<rparr>
      else self)"

definition add_achievement :: "Player \<Rightarrow> string \<Rightarrow> Player" where
  "add_achievement self achievement =
     (if achievement \<notin> set (achievements self)
      then self\<lparr>achievements := achievements self @ [achievement]\<rparr>
      else self)"

subsection \<open>models.py: PromptGenerator\<close>

text \<open>The UTF-8 encodings of the accented letters that occur in the source literals.\<close>

definition a_acute :: string where "a_acute = [CHR 0xC3, CHR 0xA1]"
definition a_tilde :: string where "a_tilde = [CHR 0xC3, CHR 0xA3]"
definition c_cedilla :: string where "c_cedilla = [CHR 0xC3, CHR 0xA7]"
definition i_acute :: string where "i_acute = [CHR 0xC3, CHR 0xAD]"
definition o_acute :: string where "o_acute = [CHR 0xC3, CHR 0xB3]"
definition o_circumflex :: string where "o_circumflex = [CHR 0xC3, CHR 0xB4]"

definition EASY_PROMPTS :: "string list" where
  "EASY_PROMPTS =
     [''cachorro'', ''gato'', ''casa'', a_acute @ ''rvore'', ''sol'', ''lua'', ''estrela'',
      ''cora'' @ c_cedilla @ a_tilde @ ''o'', ''flor'', ''carro'', ''bicicleta'',
      ''p'' @ a_acute @ ''ssaro'', ''peixe'']"

definition MEDIUM_PROMPTS :: "string list" where
  "MEDIUM_PROMPTS =
     [''drag'' @ a_tilde @ ''o'', ''rob'' @ o_circumflex, ''castelo'', ''foguete'',
      ''dinossauro'', ''sereia'', ''unic'' @ o_acute @ ''rnio'', ''pirata'', ''ninja'',
      ''bruxa'', ''vampiro'', ''zumbi'']"

definition HARD_PROMPTS :: "string list" where
  "HARD_PROMPTS =
     [''felicidade'', ''liberdade'', ''solid'' @ a_tilde @ ''o'', ''caos'', ''harmonia'',
      ''tempo'', ''mem'' @ o_acute @ ''ria'', ''sonho'', ''imposs'' @ i_acute @ ''vel'',
      ''infinito'']"

definition SURPRISE_PROMPTS :: "string list" where
  "SURPRISE_PROMPTS =
     [''um gato astronauta'', ''pizza voadora'', ''rob'' @ o_circumflex @ '' jardineiro'',
      ''drag'' @ a_tilde @ ''o dormindo'', a_acute @ ''rvore de doces'', ''nuvem com pernas'',
      ''peixe-guitarra'', ''cachorro-unic'' @ o_acute @ ''rnio'', ''casa flutuante'']"

text \<open>
  \<^verbatim>\<open>random.choice(seq)\<close>: the environment supplies a natural number, the element at that
  number modulo the length is taken, so that every element can be chosen and nothing else.
  All sequences it is applied to are non-empty constants.
\<close>

definition random_choice :: "nat \<Rightarrow> 'a list \<Rightarrow> 'a" where
  "random_choice k seq = seq ! (k mod length seq)"

text \<open>
  \<^verbatim>\<open>PromptGenerator.generate\<close>. The argument \<open>roll\<close> is the value of
  \<^verbatim>\<open>random.random()\<close>, a number in \<open>[0, 1)\<close>, and \<open>pick\<close> feeds \<^verbatim>\<open>random.choice\<close>.
\<close>

definition generate :: "rat \<Rightarrow> nat \<Rightarrow> Difficulty \<Rightarrow> bool \<Rightarrow> Prompt" where
  "generate roll pick dif surprise =
     (if surprise \<and> roll > 7 / 10
      then \<lparr>text_str = random_choice pick SURPRISE_PROMPTS, difficulty = MEDIUM, time_limit = 30\<rparr>
      else if dif = EASY
      then \<lparr>text_str = random_choice pick EASY_PROMPTS, difficulty = dif, time_limit = 20\<rparr>
      else if dif = MEDIUM
      then \<lparr>text_str = random_choice pick MEDIUM_PROMPTS, difficulty = dif, time_limit = 25\<rparr>
      else \<lparr>text_str = random_choice pick HARD_PROMPTS, difficulty = dif, time_limit = 30\<rparr>)"

subsection \<open>models.py: AchievementSystem\<close>

record Achievement =
  ach_name :: string
  description :: string
  ach_xp :: int

definition ACHIEVEMENTS :: "(string \<times> Achievement) list" where
  "ACHIEVEMENTS =
     [(''first_draw'',
        \<lparr>ach_name = ''Primeiro Tra'' @ c_cedilla @ ''o'',
         description = ''Complete seu primeiro desenho'', ach_xp = 50\<rparr>),
      (''speed_demon'',
        \<lparr>ach_name = ''Dem'' @ o_circumflex @ ''nio da Velocidade'',
         description = ''Complete um desenho em menos de 5 segundos'', ach_xp = 100\<rparr>),
      (''perfectionist'',
        \<lparr>ach_name = ''Perfeccionista'',
         description = ''Acerte 10 desenhos seguidos'', ach_xp = 200\<rparr>),
      (''night_owl'',
        \<lparr>ach_name = ''Coruja Noturna'',
         description = ''Jogue depois da meia-noite'', ach_xp = 75\<rparr>),
      (''level_10'',
        \<lparr>ach_name = ''Artista Dedicado'',
         description = ''Alcance o n'' @ i_acute @ ''vel 10'', ach_xp = 500\<rparr>),
      (''abstract_master'',
        \<lparr>ach_name = ''Mestre Abstrato'',
         description = ''Confunda a IA 5 vezes'', ach_xp = 150\<rparr>)]"

text \<open>
  \<^verbatim>\<open>AchievementSystem.check_achievements\<close>: the five tests run in the order of the
  source, each on the player as the previous tests left it; the result is the list of new
  identifiers and the updated player.
\<close>

definition check_achievements :: "Player \<Rightarrow> DrawingSession \<Rightarrow> string list \<times> Player" where
  "check_achievements player0 session =
     (let new0 = [];
          (new1, player1) =
            (if total_drawings player0 = 1 \<and> ''first_draw'' \<notin> set (achievements player0)
             then (new0 @ [''first_draw''], add_achievement player0 ''first_draw'')
             else (new0, player0));
          (new2, player2) =
            (if time_spent session < 5 \<and> correct session
                \<and> ''speed_demon'' \<notin> set (achievements player1)
             then (new1 @ [''speed_demon''], add_achievement player1 ''speed_demon'')
             else (new1, player1));
          (new3, player3) =
            (if streak player2 \<ge> 10 \<and> ''perfectionist'' \<notin> set (achievements player2)
             then (new2 @ [''perfectionist''], add_achievement player2 ''perfectionist'')
             else (new2, player2));
          (new4, player4) =
            (if level player3 \<ge> 10 \<and> ''level_10'' \<notin> set (achievements player3)
             then (new3 @ [''level_10''], add_achievement player3 ''level_10'')
             else (new3, player3));
          (new5, player5) =
            (if ''abstract_master'' \<notin> set (achievements player4)
             then (let confused_count = total_drawings player4 - correct_guesses player4
                   in if confused_count \<ge> 5
                      then (new4 @ [''abstract_master''],
                            add_achievement player4 ''abstract_master'')
                      else (new4, player4))
             else (new4, player4))
      in (new5, player5))"

subsection \<open>Python primitives used by the game manager\<close>

text \<open>\<^verbatim>\<open>int(x)\<close> on a float truncates toward zero.\<close>

definition py_int :: "rat \<Rightarrow> int" where
  "py_int x = (if 0 \<le> x then \<lfloor>x\<rfloor> else \<lceil>x\<rceil>)"

text \<open>
  \<^verbatim>\<open>round(x, 1)\<close>: the nearest multiple of one tenth, a tie going to the even one.
\<close>

definition round_half_even :: "rat \<Rightarrow> int" where
  "round_half_even x =
     (let f = \<lfloor>x\<rfloor>; d = x - of_int f
      in if d < 1 / 2 then f else if 1 / 2 < d then f + 1 else if even f then f else f + 1)"

definition py_round1 :: "rat \<Rightarrow> rat" where
  "py_round1 x = of_int (round_half_even (x * 10)) / 10"

text \<open>
  \<^verbatim>\<open>d[k] = v\<close> on a dictionary kept in insertion order: an existing key keeps its place.
  \<^verbatim>\<open>d.get(k)\<close> is \<^const>\<open>map_of\<close>.
\<close>

fun dict_set :: "('k \<times> 'v) list \<Rightarrow> 'k \<Rightarrow> 'v \<Rightarrow> ('k \<times> 'v) list" where
  "dict_set [] k v = [(k, v)]"
| "dict_set ((k', v') # kvs) k v =
     (if k' = k then (k, v) # kvs else (k', v') # dict_set kvs k v)"

text \<open>\<^verbatim>\<open>xs[:limit]\<close>: a negative bound counts from the end.\<close>

definition slice_to :: "'a list \<Rightarrow> int \<Rightarrow> 'a list" where
  "slice_to xs limit =
     (if 0 \<le> limit then take (nat limit) xs else take (nat (int (length xs) + limit)) xs)"

text \<open>
  \<^verbatim>\<open>sorted(xs, key=f, reverse=True)\<close>: CPython reverses the list, sorts it stably in
  ascending order and reverses the result, so that equal keys keep their original order.
\<close>

definition sorted_reverse :: "('a \<Rightarrow> 'k::linorder) \<Rightarrow> 'a list \<Rightarrow> 'a list" where
  "sorted_reverse f xs = rev (sort_key f (rev xs))"

subsection \<open>game_manager.py: the manager's state\<close>

datatype error = ValueError string | KeyError string

record GameManager =
  heap :: "nat \<Rightarrow> Player"
  next_ref :: nat
  players :: "(string \<times> nat) list"
  sessions :: "(string \<times> DrawingSession) list"
  multiplayer_rooms :: "(string \<times> string list) list"

text \<open>
  The store: \<open>heap\<close> maps the address of a player object to its current value, and
  addresses from \<open>next_ref\<close> on are not allocated yet. A freshly constructed manager has three
  empty dictionaries.
\<close>

definition blank_player :: Player where
  "blank_player =
     \<lparr>id_str = [], name = [], level = 1, xp = 0, streak = 0, total_drawings = 0,
      correct_guesses = 0, brushes_unlocked = [NORMAL], achievements = [],
      last_played = None\<rparr>"

definition init_manager :: GameManager where
  "init_manager =
     \<lparr>heap = (\<lambda>_. blank_player), next_ref = 0, players = [], sessions = [],
      multiplayer_rooms = []\<rparr>"

text \<open>
  \<^verbatim>\<open>create_player\<close>; \<open>player_id\<close> is the value of \<^verbatim>\<open>str(uuid.uuid4())\<close> and \<open>now\<close>
  that of \<^verbatim>\<open>datetime.now()\<close>. The result is the reference to the new object.
\<close>

definition create_player :: "GameManager \<Rightarrow> string \<Rightarrow> string \<Rightarrow> datetime \<Rightarrow> nat \<times> GameManager" where
  "create_player self nm player_id now =
     (let player_obj =
            \<lparr>id_str = player_id, name = nm, level = 1, xp = 0, streak = 0,
             total_drawings = 0, correct_guesses = 0, brushes_unlocked = [NORMAL],
             achievements = [], last_played = Some now\<rparr>;
          r = next_ref self
      in (r, self\<lparr>heap := (heap self)(r := player_obj), next_ref := r + 1,
                   players := dict_set (players self) player_id r\<rparr>))"

definition get_player :: "GameManager \<Rightarrow> string \<Rightarrow> nat option" where
  "get_player self player_id = map_of (players self) player_id"

text \<open>What the environment supplies to one call of \<^verbatim>\<open>start_session\<close>.\<close>

record Environment =
  player_uuid :: string
  player_now :: datetime
  difficulty_pick :: nat
  surprise_roll :: rat
  prompt_pick :: nat
  session_uuid :: string
  session_now :: datetime

text \<open>
  The adjustment of the difficulty in \<^verbatim>\<open>start_session\<close> (both variants): the parameter
  \<open>dif\<close> is overwritten in each of the three branches.
\<close>

definition adjust_difficulty :: "Difficulty \<Rightarrow> int \<Rightarrow> nat \<Rightarrow> Difficulty" where
  "adjust_difficulty dif lvl pick =
     (if lvl < 3 then EASY
      else if lvl < 7 then MEDIUM
      else random_choice pick [MEDIUM, HARD])"

text \<open>The common tail of both variants, from the adjustment of the difficulty on.\<close>

definition open_session ::
  "GameManager \<Rightarrow> Environment \<Rightarrow> nat \<Rightarrow> Difficulty \<Rightarrow> bool \<Rightarrow> DrawingSession \<times> GameManager" where
  "open_session self env r dif surprise_mode =
     (let dif' = adjust_difficulty dif (level (heap self r)) (difficulty_pick env);
          prompt_obj = generate (surprise_roll env) (prompt_pick env) dif' surprise_mode;
          sid = session_uuid env;
          session =
            \<lparr>session_id = sid, player = r, prompt = prompt_obj, started_at = session_now env,
             drawing_data = None, ai_guesses = [], correct = False, time_spent = 0, score = 0\<rparr>
      in (session, self\<lparr>sessions := dict_set (sessions self) sid session\<rparr>))"

text \<open>
  \<^verbatim>\<open>start_session\<close> of \<^verbatim>\<open>templates_static/game_manager.py\<close>: an unknown player is
  created, its \<^verbatim>\<open>id\<close> field is overwritten and the object is stored once more under the
  identifier of the caller.
\<close>

definition start_session ::
  "GameManager \<Rightarrow> Environment \<Rightarrow> string \<Rightarrow> Difficulty \<Rightarrow> bool \<Rightarrow> DrawingSession \<times> GameManager" where
  "start_session self env player_id dif surprise_mode =
     (case get_player self player_id of
        Some r \<Rightarrow> open_session self env r dif surprise_mode
      | None \<Rightarrow>
          (let (r, self1) =
                 create_player self (''Player_'' @ player_id) (player_uuid env) (player_now env);
               self2 = self1\<lparr>heap := (heap self1)(r := (heap self1 r)\<lparr>id_str := player_id\<rparr>)\<rparr>;
               self3 = self2\<lparr>players := dict_set (players self2) player_id r\<rparr>
           in open_session self3 env r dif surprise_mode))"

text \<open>
  \<^verbatim>\<open>start_session\<close> of \<^verbatim>\<open>Inkly/templates_static/game_manager.py\<close>: an unknown player
  is an error.
\<close>

definition start_session_strict ::
  "GameManager \<Rightarrow> Environment \<Rightarrow> string \<Rightarrow> Difficulty \<Rightarrow> bool
     \<Rightarrow> (error + DrawingSession) \<times> GameManager" where
  "start_session_strict self env player_id dif surprise_mode =
     (case get_player self player_id of
        None \<Rightarrow> (Inl (ValueError (''Jogador n'' @ a_tilde @ ''o encontrado'')), self)
      | Some r \<Rightarrow>
          (let (session, self1) = open_session self env r dif surprise_mode
           in (Inr session, self1)))"

subsection \<open>game_manager.py: completing a session\<close>

text \<open>
  The classification result is a dictionary read with \<^verbatim>\<open>.get(key, default)\<close>: a field is
  \<open>None\<close> when the key is absent.
\<close>

record AiResult =
  guesses :: "string list option"
  correct_key :: "bool option"
  confidence :: "int option"

record Breakdown =
  base :: int
  time_bonus :: int
  confidence_bonus :: int

record Rewards =
  rw_score :: int
  rw_xp :: int
  breakdown :: Breakdown

record CompletionResult =
  res_session :: DrawingSession
  rewards :: Rewards
  res_achievements :: "(string \<times> Achievement) list"
  level_up :: bool
  new_level :: "int option"

text \<open>
  The first block of \<^verbatim>\<open>complete_session\<close>: the result is recorded on the session and the
  score is computed from it.
\<close>

definition score_session ::
  "DrawingSession \<Rightarrow> string \<Rightarrow> AiResult \<Rightarrow> rat \<Rightarrow> DrawingSession \<times> Breakdown" where
  "score_session session drawing ai_result spent =
     (let session1 = session
            \<lparr>drawing_data := Some drawing,
             ai_guesses := (case guesses ai_result of None \<Rightarrow> [] | Some g \<Rightarrow> g),
             correct := (case correct_key ai_result of None \<Rightarrow> False | Some b \<Rightarrow> b),
             time_spent := spent\<rparr>;
          base_score = (if correct session1 then 100 else 20);
          time_bonus' = max 0 (py_int ((of_int (time_limit (prompt session1)) - spent) * 5));
          confidence_bonus' =
            py_int (of_int (case confidence ai_result of None \<Rightarrow> 0 | Some c \<Rightarrow> c) / 2)
      in (session1\<lparr>score := base_score + time_bonus' + confidence_bonus'\<rparr>,
          \<lparr>base = base_score, time_bonus = time_bonus', confidence_bonus = confidence_bonus'\<rparr>))"

text \<open>The second block: the statistics of the player.\<close>

definition update_stats :: "Player \<Rightarrow> datetime \<Rightarrow> DrawingSession \<Rightarrow> Player" where
  "update_stats player0 now session =
     (let player1 = player0\<lparr>total_drawings := total_drawings player0 + 1,
                             last_played := Some now\<rparr>
      in if correct session
         then player1\<lparr>correct_guesses := correct_guesses player1 + 1,
                      streak := streak player1 + 1\<rparr>
         else player1\<lparr>streak := 0\<rparr>)"

text \<open>\<^verbatim>\<open>_unlock_brushes\<close>: the table is traversed in the order it is written.\<close>

definition unlocks :: "(int \<times> BrushType) list" where
  "unlocks = [(3, NEON), (5, SPRAY), (7, MARKER), (10, SPARKLE)]"

definition unlock_brushes :: "Player \<Rightarrow> Player" where
  "unlock_brushes player0 =
     fold (\<lambda>(lvl, brush) p. if level p \<ge> lvl then unlock_brush p brush else p) unlocks player0"

text \<open>
  The loop that grants the bonus of each new achievement. \<^verbatim>\<open>ACHIEVEMENTS[achievement_id]\<close>
  raises \<^verbatim>\<open>KeyError\<close> on an identifier that is not in the table; the player then stays as
  the loop left it.
\<close>

fun grant_bonuses :: "string list \<Rightarrow> Player \<Rightarrow> error option \<times> Player" where
  "grant_bonuses [] player0 = (None, player0)"
| "grant_bonuses (achievement_id # rest) player0 =
     (case map_of ACHIEVEMENTS achievement_id of
        None \<Rightarrow> (Some (KeyError achievement_id), player0)
      | Some achievement \<Rightarrow> grant_bonuses rest (snd (add_xp player0 (ach_xp achievement))))"

text \<open>The list comprehension of the returned dictionary.\<close>

fun achievement_entries :: "string list \<Rightarrow> error + (string \<times> Achievement) list" where
  "achievement_entries [] = Inr []"
| "achievement_entries (aid # rest) =
     (case map_of ACHIEVEMENTS aid of
        None \<Rightarrow> Inl (KeyError aid)
      | Some achievement \<Rightarrow>
          (case achievement_entries rest of
             Inl e \<Rightarrow> Inl e
           | Inr es \<Rightarrow> Inr ((aid, achievement) # es)))"

text \<open>
  \<^verbatim>\<open>complete_session\<close> (the same in both variants). The session and the player are
  mutated in place, so the state is returned in every case.
\<close>

definition complete_session ::
  "GameManager \<Rightarrow> datetime \<Rightarrow> string \<Rightarrow> string \<Rightarrow> AiResult \<Rightarrow> rat
     \<Rightarrow> (error + CompletionResult) \<times> GameManager" where
  "complete_session self now sid drawing ai_result spent =
     (case map_of (sessions self) sid of
        None \<Rightarrow> (Inl (ValueError (''Sess'' @ a_tilde @ ''o n'' @ a_tilde @ ''o encontrada'')), self)
      | Some session0 \<Rightarrow>
          (let r = player session0;
               (session, bd) = score_session session0 drawing ai_result spent;
               player1 = update_stats (heap self r) now session;
               (lvl_up, player2) = add_xp player1 (score session);
               player3 = unlock_brushes player2;
               (new_achievements, player4) = check_achievements player3 session;
               (err, player5) = grant_bonuses new_achievements player4;
               self' = self\<lparr>heap := (heap self)(r := player5),
                             sessions := dict_set (sessions self) sid session\<rparr>
           in case err of
                Some e \<Rightarrow> (Inl e, self')
              | None \<Rightarrow>
                  (case achievement_entries new_achievements of
                     Inl e \<Rightarrow> (Inl e, self')
                   | Inr entries \<Rightarrow>
                       (Inr \<lparr>res_session = session,
                             rewards = \<lparr>rw_score = score session, rw_xp = score session,
                                        breakdown = bd\<rparr>,
                             res_achievements = entries,
                             level_up = lvl_up,
                             new_level = (if lvl_up then Some (level player5) else None)\<rparr>,
                        self'))))"

subsection \<open>game_manager.py: rooms and leaderboard\<close>

definition create_multiplayer_room :: "GameManager \<Rightarrow> string \<Rightarrow> string \<Rightarrow> string \<times> GameManager" where
  "create_multiplayer_room self uuid player_id =
     (let room_id = take 8 uuid
      in (room_id,
          self\<lparr>multiplayer_rooms := dict_set (multiplayer_rooms self) room_id [player_id]\<rparr>))"

definition join_multiplayer_room :: "GameManager \<Rightarrow> string \<Rightarrow> string \<Rightarrow> bool \<times> GameManager" where
  "join_multiplayer_room self room_id player_id =
     (case map_of (multiplayer_rooms self) room_id of
        Some members \<Rightarrow>
          (True,
           if player_id \<notin> set members
           then self\<lparr>multiplayer_rooms :=
                       dict_set (multiplayer_rooms self) room_id (members @ [player_id])\<rparr>
           else self)
      | None \<Rightarrow> (False, self))"

definition get_room_players :: "GameManager \<Rightarrow> string \<Rightarrow> nat list" where
  "get_room_players self room_id =
     (let player_ids = (case map_of (multiplayer_rooms self) room_id of
                          None \<Rightarrow> [] | Some ids \<Rightarrow> ids)
      in List.map_filter (get_player self) player_ids)"

record LeaderboardEntry =
  rank :: int
  lb_name :: string
  lb_level :: int
  lb_xp :: int
  lb_total_drawings :: int
  accuracy :: rat
  lb_streak :: int

text \<open>
  The ranking of \<^verbatim>\<open>get_leaderboard\<close>: the values of the dictionary (references to
  player objects, in insertion order of the keys) sorted by the key of the source.
\<close>

definition sorted_players :: "GameManager \<Rightarrow> nat list" where
  "sorted_players self =
     sorted_reverse (\<lambda>r. (level (heap self r), correct_guesses (heap self r)))
       (map snd (players self))"

definition leaderboard_entry :: "nat \<Rightarrow> Player \<Rightarrow> LeaderboardEntry" where
  "leaderboard_entry i p =
     \<lparr>rank = int i + 1, lb_name = name p, lb_level = level p, lb_xp = xp p,
      lb_total_drawings = total_drawings p,
      accuracy = py_round1 (if total_drawings p > 0
                            then of_int (correct_guesses p) / of_int (total_drawings p) * 100
                            else 0),
      lb_streak = streak p\<rparr>"

definition get_leaderboard :: "GameManager \<Rightarrow> int \<Rightarrow> LeaderboardEntry list" where
  "get_leaderboard self limit =
     map (\<lambda>(i, r). leaderboard_entry i (heap self r))
       (enumerate 0 (slice_to (sorted_players self) limit))"

subsection \<open>The states the program can be in\<close>

text \<open>
  One call of a public operation of the manager. \<^verbatim>\<open>uuid.uuid4()\<close> does not return a
  value it has returned before, so the identifier handed to \<^verbatim>\<open>create_player\<close> is not a
  key of \<open>players\<close> yet.
\<close>

inductive step :: "GameManager \<Rightarrow> GameManager \<Rightarrow> bool" where
  step_create_player:
    "uuid \<notin> fst ` set (players gm) \<Longrightarrow> step gm (snd (create_player gm nm uuid now))"
| step_start_session:
    "player_uuid env \<notin> fst ` set (players gm) \<Longrightarrow>
     step gm (snd (start_session gm env player_id dif surprise_mode))"
| step_start_session_strict:
    "step gm (snd (start_session_strict gm env player_id dif surprise_mode))"
| step_complete_session:
    "step gm (snd (complete_session gm now sid drawing ai_result spent))"
| step_create_room:
    "step gm (snd (create_multiplayer_room gm uuid player_id))"
| step_join_room:
    "step gm (snd (join_multiplayer_room gm room_id player_id))"

definition reachable :: "GameManager \<Rightarrow> bool" where
  "reachable gm = step\<^sup>*\<^sup>* init_manager gm"

section \<open>The specification's own formulations\<close>

text \<open>
  The achievement rules as the specification tabulates them: the five identifiers that have a
  rule, the condition of each, and the bonus of each.
\<close>

definition achievement_ids :: "string list" where
  "achievement_ids =
     [''first_draw'', ''speed_demon'', ''perfectionist'', ''level_10'', ''abstract_master'']"

definition spec_rule :: "Player \<Rightarrow> DrawingSession \<Rightarrow> string \<Rightarrow> bool" where
  "spec_rule p s a =
     ((a = ''first_draw'' \<and> total_drawings p = 1) \<or>
      (a = ''speed_demon'' \<and> time_spent s < 5 \<and> correct s) \<or>
      (a = ''perfectionist'' \<and> streak p \<ge> 10) \<or>
      (a = ''level_10'' \<and> level p \<ge> 10) \<or>
      (a = ''abstract_master'' \<and> total_drawings p - correct_guesses p \<ge> 5))"

definition spec_bonus :: "string \<Rightarrow> int" where
  "spec_bonus a =
     (if a = ''first_draw'' then 50
      else if a = ''speed_demon'' then 100
      else if a = ''perfectionist'' then 200
      else if a = ''level_10'' then 500
      else if a = ''abstract_master'' then 150
      else 0)"



section \<open>Program points and runs\<close>

text \<open>
  The player as it stands when \<^verbatim>\<open>complete_session\<close> calls
  \<^verbatim>\<open>check_achievements\<close>: statistics updated, score added, brushes unlocked.
\<close>

definition player_at_check ::
  "GameManager \<Rightarrow> datetime \<Rightarrow> DrawingSession \<Rightarrow> string \<Rightarrow> AiResult \<Rightarrow> rat \<Rightarrow> Player" where
  "player_at_check gm now s0 d ai t =
     (let S = fst (score_session s0 d ai t)
      in unlock_brushes (snd (add_xp (update_stats (heap gm (player s0)) now S) (score S))))"



section \<open>Concrete scenarios\<close>

text \<open>
  A manager with one player \<open>ana\<close>, stored at address \<open>0\<close> under the key \<open>u1\<close>, and one
  open session \<open>s1\<close> of hers on an easy prompt (time limit 20).
\<close>

definition env_s1 :: Environment where
  "env_s1 = \<lparr>player_uuid = ''u9'', player_now = 0, difficulty_pick = 0, surprise_roll = 0,
              prompt_pick = 0, session_uuid = ''s1'', session_now = 1\<rparr>"


definition session_s1 :: DrawingSession where
  "session_s1 =
     fst (start_session (snd (create_player init_manager ''ana'' ''u1'' 0))
            env_s1 ''u1'' HARD False)"





text \<open>
  The first variant of \<^verbatim>\<open>start_session\<close> called on a new manager for the unknown
  player identifier \<open>bob\<close>.
\<close>

definition gm_alias :: GameManager where
  "gm_alias = snd (start_session init_manager env_s1 ''bob'' HARD False)"

section \<open>Auxiliary facts\<close>

subsection \<open>Truncation\<close>

lemma max_py_int: "max 0 (py_int x) = max 0 \<lfloor>x\<rfloor>"
  unfolding py_int_def by (auto simp: max_def) linarith+

lemma py_int_half: "py_int (of_int c / 2) = (if 0 \<le> c then c div 2 else - ((- c) div 2))"
proof (cases "0 \<le> c")
  case True
  then have "py_int (of_int c / 2) = \<lfloor>(of_int c :: rat) / of_int 2\<rfloor>" by (simp add: py_int_def)
  also have "\<dots> = c div 2" by (rule floor_divide_of_int_eq)
  finally show ?thesis using True by simp
next
  case False
  then have "py_int (of_int c / 2) = \<lceil>(of_int c :: rat) / of_int 2\<rceil>" by (simp add: py_int_def)
  also have "\<dots> = - \<lfloor>(of_int (- c) :: rat) / of_int 2\<rfloor>" by (simp add: ceiling_def)
  also have "\<dots> = - ((- c) div 2)" by (simp only: floor_divide_of_int_eq)
  finally show ?thesis using False by simp
qed

subsection \<open>Fields that the mutators leave alone\<close>

lemma add_xp_keeps:
  "total_drawings (snd (add_xp p n)) = total_drawings p"
  "correct_guesses (snd (add_xp p n)) = correct_guesses p"
  "streak (snd (add_xp p n)) = streak p"
  "last_played (snd (add_xp p n)) = last_played p"
  "achievements (snd (add_xp p n)) = achievements p"
  "brushes_unlocked (snd (add_xp p n)) = brushes_unlocked p"
  "id_str (snd (add_xp p n)) = id_str p"
  "name (snd (add_xp p n)) = name p"
  by (simp_all add: add_xp_def Let_def)

lemma unlock_brush_keeps:
  "total_drawings (unlock_brush p b) = total_drawings p"
  "correct_guesses (unlock_brush p b) = correct_guesses p"
  "streak (unlock_brush p b) = streak p"
  "last_played (unlock_brush p b) = last_played p"
  "achievements (unlock_brush p b) = achievements p"
  "level (unlock_brush p b) = level p"
  "xp (unlock_brush p b) = xp p"
  by (simp_all add: unlock_brush_def)

lemma unlock_brushes_keeps:
  "total_drawings (unlock_brushes p) = total_drawings p"
  "correct_guesses (unlock_brushes p) = correct_guesses p"
  "streak (unlock_brushes p) = streak p"
  "last_played (unlock_brushes p) = last_played p"
  "achievements (unlock_brushes p) = achievements p"
  "level (unlock_brushes p) = level p"
  "xp (unlock_brushes p) = xp p"
  by (simp_all add: unlock_brushes_def unlocks_def unlock_brush_keeps)

lemma add_achievement_keeps:
  "total_drawings (add_achievement p a) = total_drawings p"
  "correct_guesses (add_achievement p a) = correct_guesses p"
  "streak (add_achievement p a) = streak p"
  "last_played (add_achievement p a) = last_played p"
  "level (add_achievement p a) = level p"
  "xp (add_achievement p a) = xp p"
  by (simp_all add: add_achievement_def)

subsection \<open>The achievement rules in closed form\<close>

lemma spec_rule_simps:
  "spec_rule p s ''first_draw'' = (total_drawings p = 1)"
  "spec_rule p s ''speed_demon'' = (time_spent s < 5 \<and> correct s)"
  "spec_rule p s ''perfectionist'' = (streak p \<ge> 10)"
  "spec_rule p s ''level_10'' = (level p \<ge> 10)"
  "spec_rule p s ''abstract_master'' = (total_drawings p - correct_guesses p \<ge> 5)"
  by (simp_all add: spec_rule_def)

lemma check_achievements_closed:
  "check_achievements p s =
     (filter (\<lambda>a. spec_rule p s a \<and> a \<notin> set (achievements p)) achievement_ids,
      p\<lparr>achievements := achievements p @
           filter (\<lambda>a. spec_rule p s a \<and> a \<notin> set (achievements p)) achievement_ids\<rparr>)"
proof -
  define N where "N = (\<lambda>ids. filter (\<lambda>a. spec_rule p s a \<and> a \<notin> set (achievements p)) ids)"
  define P where "P = (\<lambda>ids. p\<lparr>achievements := achievements p @ N ids\<rparr>)"
  have st: "(if c \<and> a \<notin> set (achievements (P ids))
             then (N ids @ [a], add_achievement (P ids) a) else (N ids, P ids))
            = (N (ids @ [a]), P (ids @ [a]))"
    if "a \<notin> set ids" "c \<longleftrightarrow> spec_rule p s a" for c a ids
    using that by (auto simp: N_def P_def add_achievement_def)
  have keep: "streak (P ids) = streak p" "level (P ids) = level p"
    "total_drawings (P ids) = total_drawings p" "correct_guesses (P ids) = correct_guesses p"
    for ids by (simp_all add: P_def)
  have e0: "N [] = []" "P [] = p" by (simp_all add: N_def P_def)
  have b1: "(if total_drawings p = 1 \<and> ''first_draw'' \<notin> set (achievements p)
             then ([] @ [''first_draw''], add_achievement p ''first_draw'') else ([], p))
            = (N [''first_draw''], P [''first_draw''])"
    using st [of "''first_draw''" "[]" "total_drawings p = 1"] unfolding e0
    by (simp add: spec_rule_simps)
  have b2: "(if time_spent s < 5 \<and> correct s \<and>
                ''speed_demon'' \<notin> set (achievements (P [''first_draw'']))
             then (N [''first_draw''] @ [''speed_demon''],
                   add_achievement (P [''first_draw'']) ''speed_demon'')
             else (N [''first_draw''], P [''first_draw'']))
            = (N [''first_draw'', ''speed_demon''], P [''first_draw'', ''speed_demon''])"
    using st [of "''speed_demon''" "[''first_draw'']" "time_spent s < 5 \<and> correct s"]
    by (simp add: spec_rule_simps)
  have b3: "(if 10 \<le> streak (P [''first_draw'', ''speed_demon'']) \<and>
                ''perfectionist'' \<notin> set (achievements (P [''first_draw'', ''speed_demon'']))
             then (N [''first_draw'', ''speed_demon''] @ [''perfectionist''],
                   add_achievement (P [''first_draw'', ''speed_demon'']) ''perfectionist'')
             else (N [''first_draw'', ''speed_demon''], P [''first_draw'', ''speed_demon'']))
            = (N [''first_draw'', ''speed_demon'', ''perfectionist''],
               P [''first_draw'', ''speed_demon'', ''perfectionist''])"
    using st [of "''perfectionist''" "[''first_draw'', ''speed_demon'']" "10 \<le> streak p"]
    by (simp add: spec_rule_simps keep)
  have b4: "(if 10 \<le> level (P [''first_draw'', ''speed_demon'', ''perfectionist'']) \<and>
                ''level_10'' \<notin> set (achievements (P [''first_draw'', ''speed_demon'', ''perfectionist'']))
             then (N [''first_draw'', ''speed_demon'', ''perfectionist''] @ [''level_10''],
                   add_achievement (P [''first_draw'', ''speed_demon'', ''perfectionist'']) ''level_10'')
             else (N [''first_draw'', ''speed_demon'', ''perfectionist''],
                   P [''first_draw'', ''speed_demon'', ''perfectionist'']))
            = (N [''first_draw'', ''speed_demon'', ''perfectionist'', ''level_10''],
               P [''first_draw'', ''speed_demon'', ''perfectionist'', ''level_10''])"
    using st [of "''level_10''" "[''first_draw'', ''speed_demon'', ''perfectionist'']" "10 \<le> level p"]
    by (simp add: spec_rule_simps keep)
  have b5: "(if ''abstract_master'' \<notin> set (achievements (P [''first_draw'', ''speed_demon'', ''perfectionist'', ''level_10'']))
             then if 5 \<le> total_drawings (P [''first_draw'', ''speed_demon'', ''perfectionist'', ''level_10''])
                        - correct_guesses (P [''first_draw'', ''speed_demon'', ''perfectionist'', ''level_10''])
                  then (N [''first_draw'', ''speed_demon'', ''perfectionist'', ''level_10''] @ [''abstract_master''],
                        add_achievement (P [''first_draw'', ''speed_demon'', ''perfectionist'', ''level_10'']) ''abstract_master'')
                  else (N [''first_draw'', ''speed_demon'', ''perfectionist'', ''level_10''],
                        P [''first_draw'', ''speed_demon'', ''perfectionist'', ''level_10''])
             else (N [''first_draw'', ''speed_demon'', ''perfectionist'', ''level_10''],
                   P [''first_draw'', ''speed_demon'', ''perfectionist'', ''level_10'']))
            = (N achievement_ids, P achievement_ids)"
    using st [of "''abstract_master''" "[''first_draw'', ''speed_demon'', ''perfectionist'', ''level_10'']"
                 "5 \<le> total_drawings p - correct_guesses p"]
    by (simp add: spec_rule_simps keep achievement_ids_def split: if_splits)
  have "check_achievements p s = (N achievement_ids, P achievement_ids)"
    unfolding check_achievements_def Let_def b1 prod.case b2 b3 b4 b5 ..
  then show ?thesis by (simp add: N_def P_def)
qed

lemma check_achievements_keeps:
  "total_drawings (snd (check_achievements p s)) = total_drawings p"
  "correct_guesses (snd (check_achievements p s)) = correct_guesses p"
  "streak (snd (check_achievements p s)) = streak p"
  "last_played (snd (check_achievements p s)) = last_played p"
  "level (snd (check_achievements p s)) = level p"
  "xp (snd (check_achievements p s)) = xp p"
  by (simp_all add: check_achievements_closed)

lemma check_achievements_ids: "set (fst (check_achievements p s)) \<subseteq> set achievement_ids"
  by (simp add: check_achievements_closed)

lemma grant_bonuses_keeps:
  "total_drawings (snd (grant_bonuses new p)) = total_drawings p"
  "correct_guesses (snd (grant_bonuses new p)) = correct_guesses p"
  "streak (snd (grant_bonuses new p)) = streak p"
  "last_played (snd (grant_bonuses new p)) = last_played p"
  "achievements (snd (grant_bonuses new p)) = achievements p"
  by (induction new arbitrary: p; simp add: add_xp_keeps split: option.splits)+

subsection \<open>The bonus loop and the result of a completion\<close>

lemma achievement_lookup:
  "a \<in> set achievement_ids \<Longrightarrow>
   \<exists>ach. map_of ACHIEVEMENTS a = Some ach \<and> ach_xp ach = spec_bonus a"
  by (auto simp: achievement_ids_def ACHIEVEMENTS_def spec_bonus_def)

lemma grant_bonuses_ok:
  "set new \<subseteq> set achievement_ids \<Longrightarrow>
   grant_bonuses new p = (None, fold (\<lambda>a q. snd (add_xp q (spec_bonus a))) new p)"
proof (induction new arbitrary: p)
  case Nil
  show ?case by simp
next
  case (Cons a new)
  from Cons.prems obtain ach where "map_of ACHIEVEMENTS a = Some ach" "ach_xp ach = spec_bonus a"
    using achievement_lookup [of a] by auto
  moreover have "set new \<subseteq> set achievement_ids" using Cons.prems by simp
  ultimately show ?case by (simp add: Cons.IH)
qed

lemma achievement_entries_ok:
  "set new \<subseteq> set achievement_ids \<Longrightarrow>
   \<exists>es. achievement_entries new = Inr es \<and> map fst es = new \<and>
        (\<forall>e \<in> set es. map_of ACHIEVEMENTS (fst e) = Some (snd e))"
proof (induction new)
  case Nil
  show ?case by simp
next
  case (Cons a new)
  from Cons.prems obtain ach where a: "map_of ACHIEVEMENTS a = Some ach"
    using achievement_lookup [of a] by auto
  from Cons obtain es where es: "achievement_entries new = Inr es" "map fst es = new"
    "\<forall>e \<in> set es. map_of ACHIEVEMENTS (fst e) = Some (snd e)" by auto
  show ?case using a es by simp
qed

lemma complete_session_unknown:
  "map_of (sessions gm) sid = None \<Longrightarrow>
   complete_session gm now sid d ai t =
     (Inl (ValueError (''Sess'' @ a_tilde @ ''o n'' @ a_tilde @ ''o encontrada'')), gm)"
  by (simp add: complete_session_def)

lemma complete_session_known:
  fixes gm now sid d ai t s0
  defines "S \<equiv> fst (score_session s0 d ai t)"
  defines "P3 \<equiv> unlock_brushes (snd (add_xp (update_stats (heap gm (player s0)) now S) (score S)))"
  defines "NEW \<equiv> fst (check_achievements P3 S)"
  defines "P5 \<equiv> fold (\<lambda>a q. snd (add_xp q (spec_bonus a))) NEW (snd (check_achievements P3 S))"
  assumes known: "map_of (sessions gm) sid = Some s0"
  shows "\<exists>es. complete_session gm now sid d ai t =
           (Inr \<lparr>res_session = S,
                 rewards = \<lparr>rw_score = score S, rw_xp = score S,
                            breakdown = snd (score_session s0 d ai t)\<rparr>,
                 res_achievements = es,
                 level_up = fst (add_xp (update_stats (heap gm (player s0)) now S) (score S)),
                 new_level =
                   (if fst (add_xp (update_stats (heap gm (player s0)) now S) (score S))
                    then Some (level P5) else None)\<rparr>,
            gm\<lparr>heap := (heap gm)(player s0 := P5), sessions := dict_set (sessions gm) sid S\<rparr>)
         \<and> map fst es = NEW
         \<and> (\<forall>e \<in> set es. map_of ACHIEVEMENTS (fst e) = Some (snd e))"
proof -
  have ids: "set NEW \<subseteq> set achievement_ids"
    unfolding NEW_def by (rule check_achievements_ids)
  obtain es where es: "achievement_entries NEW = Inr es" "map fst es = NEW"
    "\<forall>e \<in> set es. map_of ACHIEVEMENTS (fst e) = Some (snd e)"
    using achievement_entries_ok [OF ids] by blast
  have gb: "grant_bonuses NEW (snd (check_achievements P3 S)) = (None, P5)"
    unfolding P5_def by (rule grant_bonuses_ok [OF ids])
  have "complete_session gm now sid d ai t =
           (Inr \<lparr>res_session = S,
                 rewards = \<lparr>rw_score = score S, rw_xp = score S,
                            breakdown = snd (score_session s0 d ai t)\<rparr>,
                 res_achievements = es,
                 level_up = fst (add_xp (update_stats (heap gm (player s0)) now S) (score S)),
                 new_level =
                   (if fst (add_xp (update_stats (heap gm (player s0)) now S) (score S))
                    then Some (level P5) else None)\<rparr>,
            gm\<lparr>heap := (heap gm)(player s0 := P5), sessions := dict_set (sessions gm) sid S\<rparr>)"
    using gb es(1) 
    by (simp add: complete_session_def known Let_def case_prod_beta S_def [symmetric]
          P3_def [symmetric] NEW_def [symmetric])
  with es show ?thesis by blast
qed

subsection \<open>Dictionaries, scores and statistics\<close>

lemma map_of_dict_set: "map_of (dict_set m k v) = (map_of m)(k \<mapsto> v)"
  by (induction m) (auto simp: fun_eq_iff)

lemma score_session_simps:
  "score (fst (score_session s d ai t)) =
     (if (case correct_key ai of None \<Rightarrow> False | Some v \<Rightarrow> v) then 100 else 20)
     + max 0 \<lfloor>(of_int (time_limit (prompt s)) - t) * 5\<rfloor>
     + (if 0 \<le> (case confidence ai of None \<Rightarrow> 0 | Some v \<Rightarrow> v)
        then (case confidence ai of None \<Rightarrow> 0 | Some v \<Rightarrow> v) div 2
        else - ((- (case confidence ai of None \<Rightarrow> 0 | Some v \<Rightarrow> v)) div 2))"
  "snd (score_session s d ai t) =
     \<lparr>base = (if (case correct_key ai of None \<Rightarrow> False | Some v \<Rightarrow> v) then 100 else 20),
      time_bonus = max 0 \<lfloor>(of_int (time_limit (prompt s)) - t) * 5\<rfloor>,
      confidence_bonus =
        (if 0 \<le> (case confidence ai of None \<Rightarrow> 0 | Some v \<Rightarrow> v)
         then (case confidence ai of None \<Rightarrow> 0 | Some v \<Rightarrow> v) div 2
         else - ((- (case confidence ai of None \<Rightarrow> 0 | Some v \<Rightarrow> v)) div 2))\<rparr>"
  "correct (fst (score_session s d ai t)) = (case correct_key ai of None \<Rightarrow> False | Some v \<Rightarrow> v)"
  "time_spent (fst (score_session s d ai t)) = t"
  "player (fst (score_session s d ai t)) = player s"
  "prompt (fst (score_session s d ai t)) = prompt s"
  "drawing_data (fst (score_session s d ai t)) = Some d"
  by (simp_all add: score_session_def Let_def max_py_int py_int_half del: of_int_diff)

lemma update_stats_simps:
  "total_drawings (update_stats p now s) = total_drawings p + 1"
  "last_played (update_stats p now s) = Some now"
  "correct_guesses (update_stats p now s) =
     (if correct s then correct_guesses p + 1 else correct_guesses p)"
  "streak (update_stats p now s) = (if correct s then streak p + 1 else 0)"
  "level (update_stats p now s) = level p"
  "xp (update_stats p now s) = xp p"
  "achievements (update_stats p now s) = achievements p"
  by (simp_all add: update_stats_def Let_def)

lemma fold_bonus_keeps:
  "total_drawings (fold (\<lambda>a q. snd (add_xp q (f a))) new p) = total_drawings p"
  "correct_guesses (fold (\<lambda>a q. snd (add_xp q (f a))) new p) = correct_guesses p"
  "streak (fold (\<lambda>a q. snd (add_xp q (f a))) new p) = streak p"
  "last_played (fold (\<lambda>a q. snd (add_xp q (f a))) new p) = last_played p"
  "achievements (fold (\<lambda>a q. snd (add_xp q (f a))) new p) = achievements p"
  by (induction new arbitrary: p; simp add: add_xp_keeps)+

lemma player_at_check_simps:
  "total_drawings (player_at_check gm now s0 d ai t) = total_drawings (heap gm (player s0)) + 1"
  "last_played (player_at_check gm now s0 d ai t) = Some now"
  "correct_guesses (player_at_check gm now s0 d ai t) =
     (if (case correct_key ai of None \<Rightarrow> False | Some v \<Rightarrow> v)
      then correct_guesses (heap gm (player s0)) + 1 else correct_guesses (heap gm (player s0)))"
  "streak (player_at_check gm now s0 d ai t) =
     (if (case correct_key ai of None \<Rightarrow> False | Some v \<Rightarrow> v)
      then streak (heap gm (player s0)) + 1 else 0)"
  by (simp_all add: player_at_check_def Let_def unlock_brushes_keeps add_xp_keeps
        update_stats_simps score_session_simps)


lemma complete_session_effect:
  assumes "map_of (sessions gm) sid = Some s0"
  shows "\<not> isl (fst (complete_session gm now sid d ai t))"
    and "res_session (projr (fst (complete_session gm now sid d ai t)))
           = fst (score_session s0 d ai t)"
    and "rewards (projr (fst (complete_session gm now sid d ai t)))
           = \<lparr>rw_score = score (fst (score_session s0 d ai t)),
              rw_xp = score (fst (score_session s0 d ai t)),
              breakdown = snd (score_session s0 d ai t)\<rparr>"
    and "map fst (res_achievements (projr (fst (complete_session gm now sid d ai t))))
           = fst (check_achievements (player_at_check gm now s0 d ai t)
                    (fst (score_session s0 d ai t)))"
    and "sessions (snd (complete_session gm now sid d ai t))
           = dict_set (sessions gm) sid (fst (score_session s0 d ai t))"
    and "heap (snd (complete_session gm now sid d ai t))
           = (heap gm)(player s0 :=
                fold (\<lambda>a q. snd (add_xp q (spec_bonus a)))
                  (fst (check_achievements (player_at_check gm now s0 d ai t)
                          (fst (score_session s0 d ai t))))
                  (snd (check_achievements (player_at_check gm now s0 d ai t)
                          (fst (score_session s0 d ai t)))))"
    and "players (snd (complete_session gm now sid d ai t)) = players gm"
    and "multiplayer_rooms (snd (complete_session gm now sid d ai t)) = multiplayer_rooms gm"
    and "next_ref (snd (complete_session gm now sid d ai t)) = next_ref gm"
  using complete_session_known [OF assms, of now d ai t]
  by (auto simp: player_at_check_def Let_def)

lemma complete_session_counters:
  assumes "map_of (sessions gm) sid = Some s0"
  shows "total_drawings (heap (snd (complete_session gm now sid d ai t)) (player s0))
           = total_drawings (heap gm (player s0)) + 1"
    and "last_played (heap (snd (complete_session gm now sid d ai t)) (player s0)) = Some now"
    and "correct_guesses (heap (snd (complete_session gm now sid d ai t)) (player s0)) =
           (if (case correct_key ai of None \<Rightarrow> False | Some v \<Rightarrow> v)
            then correct_guesses (heap gm (player s0)) + 1
            else correct_guesses (heap gm (player s0)))"
    and "streak (heap (snd (complete_session gm now sid d ai t)) (player s0)) =
           (if (case correct_key ai of None \<Rightarrow> False | Some v \<Rightarrow> v)
            then streak (heap gm (player s0)) + 1 else 0)"
  by (simp_all add: complete_session_effect [OF assms] fold_bonus_keeps
        check_achievements_keeps player_at_check_simps)


subsection \<open>Rounding to one decimal\<close>








subsection \<open>Sorting and slicing\<close>

lemma sorted_reverse_mset: "mset (sorted_reverse f xs) = mset xs"
  by (simp add: sorted_reverse_def)




lemma slice_to_nth: "i < length (slice_to xs limit) \<Longrightarrow> slice_to xs limit ! i = xs ! i"
  by (auto simp: slice_to_def split: if_splits)

lemma slice_to_all: "int (length xs) \<le> limit \<Longrightarrow> slice_to xs limit = xs"
  by (simp add: slice_to_def)

lemma get_leaderboard_length:
  "length (get_leaderboard gm limit) = length (slice_to (sorted_players gm) limit)"
  by (simp add: get_leaderboard_def)

lemma sorted_players_length: "length (sorted_players gm) = length (players gm)"
  by (simp add: sorted_players_def sorted_reverse_def)

lemma get_leaderboard_nth:
  "i < length (get_leaderboard gm limit) \<Longrightarrow>
   get_leaderboard gm limit ! i = leaderboard_entry i (heap gm (sorted_players gm ! i))"
  by (simp add: get_leaderboard_def nth_enumerate_eq slice_to_nth)

subsection \<open>What one operation preserves\<close>

lemma dict_set_fresh: "k \<notin> fst ` set m \<Longrightarrow> dict_set m k v = m @ [(k, v)]"
  by (induction m) auto

lemma set_dict_set: "set (dict_set m k v) \<subseteq> insert (k, v) (set m)"
  by (induction m) (auto split: if_splits)

lemma open_session_keeps:
  "heap (snd (open_session gm env r dif sm)) = heap gm"
  "players (snd (open_session gm env r dif sm)) = players gm"
  "next_ref (snd (open_session gm env r dif sm)) = next_ref gm"
  "player (fst (open_session gm env r dif sm)) = r"
  by (simp_all add: open_session_def Let_def)

lemma start_session_unknown:
  assumes "get_player gm pid = None"
  shows "players (snd (start_session gm env pid dif sm))
           = dict_set (dict_set (players gm) (player_uuid env) (next_ref gm)) pid (next_ref gm)"
    and "next_ref (snd (start_session gm env pid dif sm)) = next_ref gm + 1"
    and "heap (snd (start_session gm env pid dif sm))
           = (heap gm)(next_ref gm :=
                \<lparr>id_str = pid, name = ''Player_'' @ pid, level = 1, xp = 0, streak = 0,
                 total_drawings = 0, correct_guesses = 0, brushes_unlocked = [NORMAL],
                 achievements = [], last_played = Some (player_now env)\<rparr>)"
    and "player (fst (start_session gm env pid dif sm)) = next_ref gm"
  using assms
  by (simp_all add: start_session_def create_player_def Let_def open_session_keeps)

lemma start_session_known:
  assumes "get_player gm pid = Some r"
  shows "players (snd (start_session gm env pid dif sm)) = players gm"
    and "next_ref (snd (start_session gm env pid dif sm)) = next_ref gm"
    and "heap (snd (start_session gm env pid dif sm)) = heap gm"
  using assms by (simp_all add: start_session_def open_session_keeps)

lemma start_session_strict_keeps:
  "players (snd (start_session_strict gm env pid dif sm)) = players gm"
  "next_ref (snd (start_session_strict gm env pid dif sm)) = next_ref gm"
  "heap (snd (start_session_strict gm env pid dif sm)) = heap gm"
  by (simp_all add: start_session_strict_def open_session_keeps case_prod_beta
        split: option.splits)

lemma complete_session_keeps:
  "players (snd (complete_session gm now sid d ai t)) = players gm"
  "next_ref (snd (complete_session gm now sid d ai t)) = next_ref gm"
proof -
  show "players (snd (complete_session gm now sid d ai t)) = players gm"
  proof (cases "map_of (sessions gm) sid")
    case None
    then show ?thesis by (simp add: complete_session_unknown)
  next
    case (Some s0)
    then show ?thesis by (rule complete_session_effect(7))
  qed
  show "next_ref (snd (complete_session gm now sid d ai t)) = next_ref gm"
  proof (cases "map_of (sessions gm) sid")
    case None
    then show ?thesis by (simp add: complete_session_unknown)
  next
    case (Some s0)
    then show ?thesis by (rule complete_session_effect(9))
  qed
qed

lemma room_keeps:
  "players (snd (create_multiplayer_room gm u pid)) = players gm"
  "next_ref (snd (create_multiplayer_room gm u pid)) = next_ref gm"
  "heap (snd (create_multiplayer_room gm u pid)) = heap gm"
  "players (snd (join_multiplayer_room gm rid pid)) = players gm"
  "next_ref (snd (join_multiplayer_room gm rid pid)) = next_ref gm"
  "heap (snd (join_multiplayer_room gm rid pid)) = heap gm"
  by (simp_all add: create_multiplayer_room_def join_multiplayer_room_def Let_def
        split: option.splits)

lemma step_keys:
  assumes "step gm gm'" "map_of (players gm) k = Some r"
  shows "map_of (players gm') k = Some r"
  using assms
proof (cases rule: step.cases)
  case (step_create_player uuid nm now)
  with assms(2) have "k \<noteq> uuid" by (metis domI dom_map_of_conv_image_fst)
  with assms(2) show ?thesis
    by (simp add: step_create_player create_player_def Let_def map_of_dict_set)
next
  case (step_start_session env player_id dif surprise_mode)
  show ?thesis
  proof (cases "get_player gm player_id")
    case None
    with assms(2) have "k \<noteq> player_id" by (auto simp: get_player_def)
    moreover from assms(2) step_start_session(2) have "k \<noteq> player_uuid env"
      by (metis domI dom_map_of_conv_image_fst)
    ultimately show ?thesis
      using assms(2) by (simp add: step_start_session(1) start_session_unknown [OF None]
          map_of_dict_set)
  next
    case (Some a)
    then show ?thesis
      using assms(2) by (simp add: step_start_session(1) start_session_known [OF Some])
  qed
qed (simp_all add: assms(2) start_session_strict_keeps complete_session_keeps room_keeps)

lemma steps_keys:
  assumes "step\<^sup>*\<^sup>* gm gm'" "map_of (players gm) k = Some r"
  shows "map_of (players gm') k = Some r"
  using assms by (induction rule: rtranclp_induct) (auto intro: step_keys)

lemma step_refs:
  assumes "step gm gm'" "\<forall>e \<in> set (players gm). snd e < next_ref gm"
  shows "\<forall>e \<in> set (players gm'). snd e < next_ref gm'"
  using assms
proof (cases rule: step.cases)
  case (step_create_player uuid nm now)
  show ?thesis
    using assms(2) set_dict_set [of "players gm" uuid "next_ref gm"]
    by (fastforce simp: step_create_player create_player_def Let_def)
next
  case (step_start_session env player_id dif surprise_mode)
  show ?thesis
  proof (cases "get_player gm player_id")
    case None
    have "set (players gm') \<subseteq>
            insert (player_id, next_ref gm) (insert (player_uuid env, next_ref gm) (set (players gm)))"
      using set_dict_set [of "dict_set (players gm) (player_uuid env) (next_ref gm)"
                              player_id "next_ref gm"]
        set_dict_set [of "players gm" "player_uuid env" "next_ref gm"]
      by (auto simp: step_start_session(1) start_session_unknown [OF None])
    then show ?thesis
      using assms(2) by (fastforce simp: step_start_session(1) start_session_unknown [OF None])
  next
    case (Some a)
    then show ?thesis
      using assms(2) by (simp add: step_start_session(1) start_session_known [OF Some])
  qed
qed (simp_all add: assms(2) start_session_strict_keeps complete_session_keeps room_keeps)

lemma step_counters:
  assumes "step gm gm'"
    "\<forall>a. 0 \<le> correct_guesses (heap gm a) \<and> correct_guesses (heap gm a) \<le> total_drawings (heap gm a)"
  shows
    "\<forall>a. 0 \<le> correct_guesses (heap gm' a) \<and> correct_guesses (heap gm' a) \<le> total_drawings (heap gm' a)"
  using assms
proof (cases rule: step.cases)
  case (step_create_player uuid nm now)
  show ?thesis
    using assms(2) by (simp add: step_create_player create_player_def Let_def)
next
  case (step_start_session env player_id dif surprise_mode)
  show ?thesis
  proof (cases "get_player gm player_id")
    case None
    show ?thesis
      using assms(2) by (simp add: step_start_session(1) start_session_unknown [OF None])
  next
    case (Some a)
    show ?thesis
      using assms(2) by (simp add: step_start_session(1) start_session_known [OF Some])
  qed
next
  case (step_complete_session now sid drawing ai_result spent)
  show ?thesis
  proof (cases "map_of (sessions gm) sid")
    case None
    then show ?thesis using assms(2) by (simp add: step_complete_session complete_session_unknown)
  next
    case (Some s0)
    show ?thesis
    proof (intro allI)
      fix a
      show "0 \<le> correct_guesses (heap gm' a) \<and> correct_guesses (heap gm' a) \<le> total_drawings (heap gm' a)"
      proof (cases "a = player s0")
        case True
        show ?thesis
          using assms(2) [rule_format, of "player s0"]
          unfolding True step_complete_session
          by (simp add: complete_session_counters [OF Some])
      next
        case False
        then show ?thesis
          using assms(2) [rule_format, of a]
          unfolding step_complete_session
          by (simp add: complete_session_effect(6) [OF Some])
      qed
    qed
  qed
qed (simp_all add: assms(2) start_session_strict_keeps room_keeps)

lemma reachable_invariants:
  assumes "reachable gm"
  shows "\<forall>a. 0 \<le> correct_guesses (heap gm a) \<and> correct_guesses (heap gm a) \<le> total_drawings (heap gm a)"
    and "\<forall>e \<in> set (players gm). snd e < next_ref gm"
proof -
  from assms have r: "step\<^sup>*\<^sup>* init_manager gm" by (simp add: reachable_def)
  from r show "\<forall>a. 0 \<le> correct_guesses (heap gm a) \<and> correct_guesses (heap gm a) \<le> total_drawings (heap gm a)"
  proof (induction rule: rtranclp_induct)
    case base
    show ?case by (simp add: init_manager_def blank_player_def)
  next
    case (step y z)
    then show ?case using step_counters by blast
  qed
  from r show "\<forall>e \<in> set (players gm). snd e < next_ref gm"
  proof (induction rule: rtranclp_induct)
    case base
    show ?case by (simp add: init_manager_def)
  next
    case (step y z)
    then show ?case using step_refs by blast
  qed
qed


subsection \<open>Aliased references and the scenarios\<close>

lemma key_count: "(k, r) \<in> set m \<Longrightarrow> 1 \<le> count_list (map snd m) r"
  by (induction m) auto

lemma two_keys_count:
  "(k1, r) \<in> set m \<Longrightarrow> (k2, r) \<in> set m \<Longrightarrow> k1 \<noteq> k2 \<Longrightarrow> 2 \<le> count_list (map snd m) r"
proof (induction m)
  case Nil
  then show ?case by simp
next
  case (Cons e m)
  show ?case
  proof (cases "e = (k1, r)")
    case True
    with Cons.prems have "(k2, r) \<in> set m" by auto
    from key_count [OF this] True show ?thesis by simp
  next
    case False
    note ne1 = this
    show ?thesis
    proof (cases "e = (k2, r)")
      case True
      with Cons.prems have "(k1, r) \<in> set m" by auto
      from key_count [OF this] True show ?thesis by simp
    next
      case False
      with ne1 Cons.prems have "(k1, r) \<in> set m" "(k2, r) \<in> set m" by auto
      from Cons.IH [OF this Cons.prems(3)] show ?thesis by simp
    qed
  qed
qed

lemma count_positions:
  "2 \<le> count_list xs r \<Longrightarrow> \<exists>i j. i < j \<and> j < length xs \<and> xs ! i = r \<and> xs ! j = r"
proof (induction xs)
  case Nil
  then show ?case by simp
next
  case (Cons x xs)
  show ?case
  proof (cases "x = r")
    case True
    with Cons.prems have "count_list xs r \<noteq> 0" by simp
    then have "r \<in> set xs" by (simp add: count_list_0_iff)
    then obtain j where "j < length xs" "xs ! j = r" by (auto simp: in_set_conv_nth)
    with True have "0 < Suc j \<and> Suc j < length (x # xs) \<and> (x # xs) ! 0 = r \<and> (x # xs) ! Suc j = r"
      by simp
    then show ?thesis by blast
  next
    case False
    with Cons.prems have "2 \<le> count_list xs r" by simp
    from Cons.IH [OF this] obtain i j where "i < j" "j < length xs" "xs ! i = r" "xs ! j = r"
      by blast
    then have "Suc i < Suc j \<and> Suc j < length (x # xs) \<and> (x # xs) ! Suc i = r \<and> (x # xs) ! Suc j = r"
      by simp
    then show ?thesis by blast
  qed
qed

lemma sorted_players_count:
  "count_list (sorted_players gm) r = count_list (map snd (players gm)) r"
proof -
  have "mset (sorted_players gm) = mset (map snd (players gm))"
    by (simp add: sorted_players_def sorted_reverse_mset)
  then have "count (mset (sorted_players gm)) r = count (mset (map snd (players gm))) r"
    by simp
  then show ?thesis by (simp only: count_mset)
qed


subsection \<open>Sequences of completions\<close>



section \<open>The claims\<close>

subsection \<open>Scoring\<close>




subsection \<open>Levelling\<close>




text \<open>
  C4. \<open>add_xp(points)\<close> adds the points and tests the threshold \<open>level * 100\<close> once: if it
  is reached the level grows by one, the old threshold is subtracted and the result is true,
  otherwise the result is false and only xp has changed. Hence for a player with
  \<open>0 \<le> xp < level * 100\<close> the call \<open>add_xp(level * 100)\<close> levels up exactly once and leaves
  \<open>0 \<le> xp < level * 100\<close> for the new level.
\<close>

theorem add_xp_single_check:
  "add_xp p points =
     (if xp p + points \<ge> level p * 100
      then (True, p\<lparr>level := level p + 1, xp := xp p + points - level p * 100\<rparr>)
      else (False, p\<lparr>xp := xp p + points\<rparr>))
   \<and> (0 \<le> xp p \<and> xp p < level p * 100 \<longrightarrow>
        fst (add_xp p (level p * 100))
        \<and> level (snd (add_xp p (level p * 100))) = level p + 1
        \<and> 0 \<le> xp (snd (add_xp p (level p * 100)))
        \<and> xp (snd (add_xp p (level p * 100))) < level (snd (add_xp p (level p * 100))) * 100)"
  by (simp add: add_xp_def Let_def)

theorem add_xp_single_check_witness:
  "0 \<le> xp blank_player \<and> xp blank_player < level blank_player * 100
   \<and> add_xp blank_player 100 = (True, blank_player\<lparr>level := 2, xp := 0\<rparr>)"
  using add_xp_single_check [of blank_player 100] by (simp add: blank_player_def)

subsection \<open>Completion: errors and statistics\<close>






subsection \<open>Achievements\<close>



subsection \<open>Starting a session and generating the prompt\<close>

text \<open>
  C6. \<^verbatim>\<open>start_session\<close> (in both variants) does not use the difficulty the caller passes:
  the prompt is generated for the difficulty computed from the level of the player, which is
  EASY below level 3, MEDIUM for the levels 3 to 6, and from level 7 on the outcome of a
  random choice that is MEDIUM or HARD, never EASY, both being possible. A player that the
  first variant creates on the way has level 1 and gets EASY.
\<close>

theorem start_session_difficulty:
  "(lvl < 3 \<longrightarrow> adjust_difficulty hint lvl pick = EASY)
   \<and> (3 \<le> lvl \<and> lvl \<le> 6 \<longrightarrow> adjust_difficulty hint lvl pick = MEDIUM)
   \<and> (7 \<le> lvl \<longrightarrow>
        adjust_difficulty hint lvl pick \<in> {MEDIUM, HARD}
        \<and> adjust_difficulty hint lvl pick \<noteq> EASY
        \<and> adjust_difficulty hint lvl 0 = MEDIUM \<and> adjust_difficulty hint lvl 1 = HARD)
   \<and> start_session gm env pid hint sm = start_session gm env pid hint' sm
   \<and> start_session_strict gm env pid hint sm = start_session_strict gm env pid hint' sm
   \<and> (get_player gm pid = Some r \<longrightarrow>
        prompt (fst (start_session gm env pid hint sm))
          = generate (surprise_roll env) (prompt_pick env)
              (adjust_difficulty hint' (level (heap gm r)) (difficulty_pick env)) sm
        \<and> fst (start_session_strict gm env pid hint sm)
          = Inr (fst (start_session gm env pid hint sm)))
   \<and> (get_player gm pid = None \<longrightarrow>
        prompt (fst (start_session gm env pid hint sm))
          = generate (surprise_roll env) (prompt_pick env) EASY sm)"
proof -
  have adj: "adjust_difficulty h l k = adjust_difficulty h' l k" for h h' l k
    by (simp add: adjust_difficulty_def)
  have op: "open_session g env a h sm = open_session g env a h' sm" for g a h h'
    by (simp add: open_session_def adj [of h _ _ h'])
  have pr: "prompt (fst (open_session g env a h sm))
              = generate (surprise_roll env) (prompt_pick env)
                  (adjust_difficulty h' (level (heap g a)) (difficulty_pick env)) sm" for g a h h'
    by (simp add: open_session_def Let_def adj [of h _ _ h'])
  have c7: "7 \<le> lvl \<Longrightarrow> adjust_difficulty hint lvl pick \<in> {MEDIUM, HARD}"
  proof -
    assume "7 \<le> lvl"
    then have "adjust_difficulty hint lvl pick = [MEDIUM, HARD] ! (pick mod length [MEDIUM, HARD])"
      by (simp add: adjust_difficulty_def random_choice_def)
    moreover have "[MEDIUM, HARD] ! (pick mod length [MEDIUM, HARD]) \<in> set [MEDIUM, HARD]"
      by (rule nth_mem) simp
    ultimately show ?thesis by simp
  qed
  have new_lvl: "get_player gm pid = None \<Longrightarrow>
        prompt (fst (start_session gm env pid hint sm))
          = generate (surprise_roll env) (prompt_pick env) EASY sm"
    by (simp add: start_session_def create_player_def Let_def pr [of _ _ _ hint]
          adjust_difficulty_def)
  show ?thesis
    using c7 new_lvl
    by (auto simp: adjust_difficulty_def random_choice_def start_session_def
          start_session_strict_def op [of _ _ hint hint'] pr [of _ _ _ hint'] case_prod_beta
          split: option.splits)
qed

theorem start_session_difficulty_witness:
  "(1::int) < 3 \<and> adjust_difficulty HARD 1 0 = EASY
   \<and> (3::int) \<le> 4 \<and> (4::int) \<le> 6 \<and> adjust_difficulty EASY 4 0 = MEDIUM
   \<and> (7::int) \<le> 9 \<and> adjust_difficulty HARD 9 1 = HARD
   \<and> get_player (snd (create_player init_manager ''ana'' ''u1'' 0)) ''u1'' = Some 0
   \<and> get_player init_manager ''bob'' = None
   \<and> difficulty (prompt session_s1) = EASY
   \<and> difficulty (prompt (fst (start_session init_manager env_s1 ''bob'' HARD False))) = EASY"
proof -
  have g: "get_player (snd (create_player init_manager ''ana'' ''u1'' 0)) ''u1'' = Some 0"
    "get_player init_manager ''bob'' = None"
    "level (heap (snd (create_player init_manager ''ana'' ''u1'' 0)) 0) = 1"
    "surprise_roll env_s1 = 0" "difficulty_pick env_s1 = 0"
    by code_simp+
  have e: "difficulty (generate 0 k EASY False) = EASY" for k
    by (simp add: generate_def)
  show ?thesis
    using start_session_difficulty
        [of 1 HARD 0 "snd (create_player init_manager ''ana'' ''u1'' 0)" env_s1 "''u1''" False HARD 0]
      start_session_difficulty [of 4 EASY 0 init_manager env_s1 "''bob''" False HARD 0]
      start_session_difficulty [of 9 HARD 1 init_manager env_s1 "''bob''" False EASY 0] g
    by (simp add: session_s1_def e)
qed

text \<open>
  C9. When \<^verbatim>\<open>generate\<close> takes the surprise branch (the flag is set and the uniform draw
  from \<open>[0, 1)\<close> exceeds 0.7, which leaves an interval of length 0.3), the text comes from
  the 9 surprise entries, the difficulty is MEDIUM and the time limit 30, whatever difficulty
  was asked for. Otherwise the text comes from the pool of the requested difficulty (13 easy,
  12 medium, 10 hard entries) and the prompt has the requested difficulty and the time limit
  20, 25 or 30. Every entry of the pool in use can be drawn.
\<close>

theorem generate_pools:
  "length EASY_PROMPTS = 13 \<and> length MEDIUM_PROMPTS = 12
   \<and> length HARD_PROMPTS = 10 \<and> length SURPRISE_PROMPTS = 9
   \<and> distinct EASY_PROMPTS \<and> distinct MEDIUM_PROMPTS
   \<and> distinct HARD_PROMPTS \<and> distinct SURPRISE_PROMPTS
   \<and> (surprise \<and> roll > 7 / 10 \<longrightarrow>
        text_str (generate roll pick dif surprise) \<in> set SURPRISE_PROMPTS
        \<and> difficulty (generate roll pick dif surprise) = MEDIUM
        \<and> time_limit (generate roll pick dif surprise) = 30
        \<and> (\<forall>x \<in> set SURPRISE_PROMPTS. \<exists>k. text_str (generate roll k dif surprise) = x))
   \<and> (\<not> (surprise \<and> roll > 7 / 10) \<longrightarrow>
        text_str (generate roll pick dif surprise)
          \<in> set (case dif of EASY \<Rightarrow> EASY_PROMPTS | MEDIUM \<Rightarrow> MEDIUM_PROMPTS
                    | HARD \<Rightarrow> HARD_PROMPTS)
        \<and> difficulty (generate roll pick dif surprise) = dif
        \<and> time_limit (generate roll pick dif surprise)
            = (case dif of EASY \<Rightarrow> 20 | MEDIUM \<Rightarrow> 25 | HARD \<Rightarrow> 30)
        \<and> (\<forall>x \<in> set (case dif of EASY \<Rightarrow> EASY_PROMPTS | MEDIUM \<Rightarrow> MEDIUM_PROMPTS
                          | HARD \<Rightarrow> HARD_PROMPTS).
              \<exists>k. text_str (generate roll k dif surprise) = x))"
proof -
  have len: "length EASY_PROMPTS = 13" "length MEDIUM_PROMPTS = 12"
    "length HARD_PROMPTS = 10" "length SURPRISE_PROMPTS = 9"
    by (simp_all add: EASY_PROMPTS_def MEDIUM_PROMPTS_def HARD_PROMPTS_def SURPRISE_PROMPTS_def)
  have dis: "distinct EASY_PROMPTS" "distinct MEDIUM_PROMPTS"
    "distinct HARD_PROMPTS" "distinct SURPRISE_PROMPTS"
    by code_simp+
  have mem: "random_choice k xs \<in> set xs" if "xs \<noteq> []" for k and xs :: "string list"
    using that by (simp add: random_choice_def)
  have sur: "\<exists>k. random_choice k xs = x" if "x \<in> set xs" for x and xs :: "string list"
  proof -
    from that obtain i where "i < length xs" "xs ! i = x" by (auto simp: in_set_conv_nth)
    then have "random_choice i xs = x" by (simp add: random_choice_def)
    then show ?thesis ..
  qed
  have ne: "EASY_PROMPTS \<noteq> []" "MEDIUM_PROMPTS \<noteq> []" "HARD_PROMPTS \<noteq> []"
    "SURPRISE_PROMPTS \<noteq> []"
    using len by auto
  have g1: "generate roll k dif surprise
              = \<lparr>text_str = random_choice k SURPRISE_PROMPTS, difficulty = MEDIUM, time_limit = 30\<rparr>"
    if "surprise \<and> roll > 7 / 10" for k
    using that by (simp add: generate_def)
  have g2: "generate roll k dif surprise
              = \<lparr>text_str = random_choice k (case dif of EASY \<Rightarrow> EASY_PROMPTS
                                | MEDIUM \<Rightarrow> MEDIUM_PROMPTS | HARD \<Rightarrow> HARD_PROMPTS),
                 difficulty = dif,
                 time_limit = (case dif of EASY \<Rightarrow> 20 | MEDIUM \<Rightarrow> 25 | HARD \<Rightarrow> 30)\<rparr>"
    if "\<not> (surprise \<and> roll > 7 / 10)" for k
    using that by (cases dif) (auto simp: generate_def)
  have pool_ne: "(case dif of EASY \<Rightarrow> EASY_PROMPTS | MEDIUM \<Rightarrow> MEDIUM_PROMPTS
                   | HARD \<Rightarrow> HARD_PROMPTS) \<noteq> []"
    using ne by (cases dif) simp_all
  have a: "surprise \<and> roll > 7 / 10 \<longrightarrow>
        text_str (generate roll pick dif surprise) \<in> set SURPRISE_PROMPTS
        \<and> difficulty (generate roll pick dif surprise) = MEDIUM
        \<and> time_limit (generate roll pick dif surprise) = 30
        \<and> (\<forall>x \<in> set SURPRISE_PROMPTS. \<exists>k. text_str (generate roll k dif surprise) = x)"
  proof
    assume c: "surprise \<and> roll > 7 / 10"
    show "text_str (generate roll pick dif surprise) \<in> set SURPRISE_PROMPTS
        \<and> difficulty (generate roll pick dif surprise) = MEDIUM
        \<and> time_limit (generate roll pick dif surprise) = 30
        \<and> (\<forall>x \<in> set SURPRISE_PROMPTS. \<exists>k. text_str (generate roll k dif surprise) = x)"
      using mem [OF ne(4)] sur [of _ SURPRISE_PROMPTS] by (simp add: g1 [OF c])
  qed
  have b: "\<not> (surprise \<and> roll > 7 / 10) \<longrightarrow>
        text_str (generate roll pick dif surprise)
          \<in> set (case dif of EASY \<Rightarrow> EASY_PROMPTS | MEDIUM \<Rightarrow> MEDIUM_PROMPTS
                    | HARD \<Rightarrow> HARD_PROMPTS)
        \<and> difficulty (generate roll pick dif surprise) = dif
        \<and> time_limit (generate roll pick dif surprise)
            = (case dif of EASY \<Rightarrow> 20 | MEDIUM \<Rightarrow> 25 | HARD \<Rightarrow> 30)
        \<and> (\<forall>x \<in> set (case dif of EASY \<Rightarrow> EASY_PROMPTS | MEDIUM \<Rightarrow> MEDIUM_PROMPTS
                          | HARD \<Rightarrow> HARD_PROMPTS).
              \<exists>k. text_str (generate roll k dif surprise) = x)"
  proof
    assume c: "\<not> (surprise \<and> roll > 7 / 10)"
    show "text_str (generate roll pick dif surprise)
          \<in> set (case dif of EASY \<Rightarrow> EASY_PROMPTS | MEDIUM \<Rightarrow> MEDIUM_PROMPTS
                    | HARD \<Rightarrow> HARD_PROMPTS)
        \<and> difficulty (generate roll pick dif surprise) = dif
        \<and> time_limit (generate roll pick dif surprise)
            = (case dif of EASY \<Rightarrow> 20 | MEDIUM \<Rightarrow> 25 | HARD \<Rightarrow> 30)
        \<and> (\<forall>x \<in> set (case dif of EASY \<Rightarrow> EASY_PROMPTS | MEDIUM \<Rightarrow> MEDIUM_PROMPTS
                          | HARD \<Rightarrow> HARD_PROMPTS).
              \<exists>k. text_str (generate roll k dif surprise) = x)"
      using mem [OF pool_ne] sur by (simp add: g2 [OF c])
  qed
  from len dis a b show ?thesis by blast
qed

theorem generate_pools_witness:
  "(True \<and> (4 / 5 :: rat) > 7 / 10)
   \<and> generate (4 / 5) 1 EASY True
       = \<lparr>text_str = ''pizza voadora'', difficulty = MEDIUM, time_limit = 30\<rparr>
   \<and> \<not> (True \<and> (1 / 2 :: rat) > 7 / 10)
   \<and> generate (1 / 2) 3 HARD True
       = \<lparr>text_str = ''caos'', difficulty = HARD, time_limit = 30\<rparr>
   \<and> ''pizza voadora'' \<in> set SURPRISE_PROMPTS \<and> ''caos'' \<in> set HARD_PROMPTS"
proof -
  have v: "generate (4 / 5) 1 EASY True
             = \<lparr>text_str = ''pizza voadora'', difficulty = MEDIUM, time_limit = 30\<rparr>"
    "generate (1 / 2) 3 HARD True
             = \<lparr>text_str = ''caos'', difficulty = HARD, time_limit = 30\<rparr>"
    by code_simp+
  show ?thesis
    using generate_pools [of True "4 / 5" 1 EASY] generate_pools [of True "1 / 2" 3 HARD] v
    by simp
qed

subsection \<open>Leaderboard\<close>




text \<open>
  C10, as amended. In the variant of \<^verbatim>\<open>start_session\<close> that creates unknown players, a
  call with an unknown \<open>player_id\<close> (and a fresh uuid different from it) stores the one new
  player object under two keys, the uuid and the caller's identifier, the latter being also
  the \<^verbatim>\<open>id\<close> field of the object. From then on, whatever the manager does, both keys
  keep referring to this object, the values of the dictionary are not distinct, the ranking
  contains the object twice, and every \<^verbatim>\<open>get_leaderboard(limit)\<close> whose limit is at
  least the number of keys lists it twice; a smaller limit cuts the ranking and may list it
  once or not at all.
\<close>

theorem start_session_aliases_player:
  assumes "get_player gm pid = None"
      and "player_uuid env \<noteq> pid"
      and "player_uuid env \<notin> fst ` set (players gm)"
  shows "let gm' = snd (start_session gm env pid dif sm); r = next_ref gm
         in players gm' = players gm @ [(player_uuid env, r), (pid, r)]
          \<and> player (fst (start_session gm env pid dif sm)) = r
          \<and> id_str (heap gm' r) = pid
          \<and> (reachable gm \<longrightarrow> count_list (map snd (players gm')) r = 2)
          \<and> (\<forall>gm''. step\<^sup>*\<^sup>* gm' gm'' \<longrightarrow>
                map_of (players gm'') (player_uuid env) = Some r
                \<and> map_of (players gm'') pid = Some r
                \<and> \<not> distinct (map snd (players gm''))
                \<and> 2 \<le> count_list (sorted_players gm'') r
                \<and> (\<forall>limit \<ge> int (length (players gm'')).
                      \<exists>i j. i < j \<and> j < length (get_leaderboard gm'' limit)
                        \<and> get_leaderboard gm'' limit ! i = leaderboard_entry i (heap gm'' r)
                        \<and> get_leaderboard gm'' limit ! j = leaderboard_entry j (heap gm'' r)))"
proof -
  define gm' where "gm' = snd (start_session gm env pid dif sm)"
  define r where "r = next_ref gm"
  define u where "u = player_uuid env"
  have pid_fresh: "pid \<notin> fst ` set (players gm)"
    using assms(1) by (simp add: get_player_def map_of_eq_None_iff)
  have pl0: "players gm' = dict_set (dict_set (players gm) u r) pid r"
    unfolding gm'_def r_def u_def by (rule start_session_unknown(1) [OF assms(1)])
  also have "dict_set (players gm) u r = players gm @ [(u, r)]"
    using assms(3) unfolding u_def by (rule dict_set_fresh)
  also have "dict_set (players gm @ [(u, r)]) pid r = (players gm @ [(u, r)]) @ [(pid, r)]"
    using pid_fresh assms(2) unfolding u_def by (intro dict_set_fresh) auto
  finally have pl: "players gm' = players gm @ [(u, r), (pid, r)]" by simp
  have ref: "player (fst (start_session gm env pid dif sm)) = r"
    unfolding r_def by (rule start_session_unknown(4) [OF assms(1)])
  have ident: "id_str (heap gm' r) = pid"
    unfolding gm'_def r_def by (simp add: start_session_unknown(3) [OF assms(1)])
  have twice: "reachable gm \<longrightarrow> count_list (map snd (players gm')) r = 2"
  proof
    assume "reachable gm"
    from reachable_invariants(2) [OF this] have "r \<notin> set (map snd (players gm))"
      unfolding r_def by auto
    then have "count_list (map snd (players gm)) r = 0" by (simp add: count_list_0_iff)
    then show "count_list (map snd (players gm')) r = 2" by (simp add: pl)
  qed
  have k1: "map_of (players gm') u = Some r"
    using assms(2) unfolding pl0 u_def by (simp add: map_of_dict_set)
  have k2: "map_of (players gm') pid = Some r"
    unfolding pl0 by (simp add: map_of_dict_set)
  have later: "map_of (players gm'') u = Some r
                \<and> map_of (players gm'') pid = Some r
                \<and> \<not> distinct (map snd (players gm''))
                \<and> 2 \<le> count_list (sorted_players gm'') r
                \<and> (\<forall>limit \<ge> int (length (players gm'')).
                      \<exists>i j. i < j \<and> j < length (get_leaderboard gm'' limit)
                        \<and> get_leaderboard gm'' limit ! i = leaderboard_entry i (heap gm'' r)
                        \<and> get_leaderboard gm'' limit ! j = leaderboard_entry j (heap gm'' r))"
    if st: "step\<^sup>*\<^sup>* gm' gm''" for gm''
  proof -
    have m1: "map_of (players gm'') u = Some r" by (rule steps_keys [OF st k1])
    have m2: "map_of (players gm'') pid = Some r" by (rule steps_keys [OF st k2])
    have "(u, r) \<in> set (players gm'')" "(pid, r) \<in> set (players gm'')"
      using m1 m2 by (auto dest: map_of_SomeD)
    then have c: "2 \<le> count_list (map snd (players gm'')) r"
      using assms(2) unfolding u_def by (intro two_keys_count) auto
    then have c': "2 \<le> count_list (sorted_players gm'') r"
      by (simp add: sorted_players_count)
    have nd: "\<not> distinct (map snd (players gm''))"
    proof
      assume "distinct (map snd (players gm''))"
      then have "count (mset (map snd (players gm''))) r \<le> 1"
        by (simp add: distinct_count_atmost_1)
      then have "count_list (map snd (players gm'')) r \<le> 1" by (simp only: count_mset)
      with c show False by simp
    qed
    from count_positions [OF c'] obtain i j where
      ij: "i < j" "j < length (sorted_players gm'')"
        "sorted_players gm'' ! i = r" "sorted_players gm'' ! j = r" by blast
    have lim: "\<exists>i j. i < j \<and> j < length (get_leaderboard gm'' limit)
                 \<and> get_leaderboard gm'' limit ! i = leaderboard_entry i (heap gm'' r)
                 \<and> get_leaderboard gm'' limit ! j = leaderboard_entry j (heap gm'' r)"
      if "int (length (players gm'')) \<le> limit" for limit
    proof -
      from that have "slice_to (sorted_players gm'') limit = sorted_players gm''"
        by (intro slice_to_all) (simp add: sorted_players_length)
      then have len: "length (get_leaderboard gm'' limit) = length (sorted_players gm'')"
        by (simp add: get_leaderboard_length)
      have "get_leaderboard gm'' limit ! i = leaderboard_entry i (heap gm'' r)"
        using get_leaderboard_nth [of i gm'' limit] ij len by simp
      moreover have "get_leaderboard gm'' limit ! j = leaderboard_entry j (heap gm'' r)"
        using get_leaderboard_nth [of j gm'' limit] ij len by simp
      ultimately show ?thesis using ij len by auto
    qed
    from m1 m2 nd c' lim show ?thesis by blast
  qed
  show ?thesis
    unfolding Let_def gm'_def [symmetric] r_def [symmetric] u_def [symmetric]
    using pl ref ident twice later by blast
qed

theorem start_session_aliases_player_witness:
  "get_player init_manager ''bob'' = None \<and> player_uuid env_s1 \<noteq> ''bob''
   \<and> player_uuid env_s1 \<notin> fst ` set (players init_manager)
   \<and> reachable init_manager
   \<and> players gm_alias = [(''u9'', 0), (''bob'', 0)]
   \<and> step\<^sup>*\<^sup>* gm_alias gm_alias
   \<and> int (length (players gm_alias)) \<le> 2
   \<and> map lb_name (get_leaderboard gm_alias 2) = [''Player_bob'', ''Player_bob'']
   \<and> \<not> distinct (map snd (players gm_alias))"
proof -
  have h: "get_player init_manager ''bob'' = None" "player_uuid env_s1 \<noteq> ''bob''"
    "player_uuid env_s1 \<notin> fst ` set (players init_manager)"
    by (simp_all add: get_player_def init_manager_def env_s1_def)
  have r0: "reachable init_manager" by (simp add: reachable_def)
  have v: "map lb_name (get_leaderboard gm_alias 2) = [''Player_bob'', ''Player_bob'']"
    by code_simp
  have n: "next_ref init_manager = 0" "players init_manager = []"
    "player_uuid env_s1 = ''u9''"
    by (simp_all add: init_manager_def env_s1_def)
  from start_session_aliases_player [OF h, of HARD False]
  have "players gm_alias = [(''u9'', 0), (''bob'', 0)]
        \<and> \<not> distinct (map snd (players gm_alias))"
    unfolding Let_def gm_alias_def [symmetric] n by auto
  then show ?thesis using h r0 v by simp
qed

text \<open>
  C10 as stated fails for a limit that cuts the ranking: right after the call,
  \<^verbatim>\<open>get_leaderboard(1)\<close> lists the player once and \<^verbatim>\<open>get_leaderboard(0)\<close> not at all.
\<close>

theorem start_session_aliases_player_counterexample:
  "players gm_alias = [(''u9'', 0), (''bob'', 0)]
   \<and> map lb_name (get_leaderboard gm_alias 1) = [''Player_bob'']
   \<and> get_leaderboard gm_alias 0 = []"
  by code_simp

end
